theory Spec2Isabelle
  imports Main
begin

section \<open>Users, requests and authorization errors\<close>

text \<open>
  The framework objects the three modules read. A user carries the two attributes the
  code inspects (\<open>is_authenticated\<close>, \<open>password\<close>); a request carries its user, the
  credential object found by the authentication layer, and the answer of
  \<open>request.is_sudo()\<close>.
\<close>

record user =
  username :: string
  is_authenticated :: bool
  password :: "string option"

datatype auth = NoAuth | ApiKey string | ApiToken string | OtherAuth string

record request =
  user :: user
  auth :: auth
  is_sudo :: bool

datatype api_exception = SudoRequired user | EmailVerificationRequired user

fun isinstance_ApiKey :: "auth \<Rightarrow> bool" where
  "isinstance_ApiKey (ApiKey _) = True"
| "isinstance_ApiKey _ = False"

fun isinstance_ApiToken :: "auth \<Rightarrow> bool" where
  "isinstance_ApiToken (ApiToken _) = True"
| "isinstance_ApiToken _ = False"

section \<open>sentry/api/decorators.py\<close>

text \<open>
  \<open>is_user_password_usable\<close> (from \<open>sentry.utils.auth\<close>) and
  \<open>User.get_verified_emails\<close> are defined outside this module: both are parameters.
  A queryset is the list of its rows, so \<open>.exists()\<close> is non-emptiness.
\<close>

definition is_considered_sudo :: "(user \<Rightarrow> bool) \<Rightarrow> request \<Rightarrow> bool" where
  "is_considered_sudo is_user_password_usable request =
     (let usr = user request in
        is_sudo request
        \<or> isinstance_ApiKey (auth request)
        \<or> isinstance_ApiToken (auth request)
        \<or> is_authenticated usr
        \<and> \<not> is_user_password_usable usr)"

definition exists_qs :: "'e list \<Rightarrow> bool" where
  "exists_qs rows = (rows \<noteq> [])"

text \<open>
  A view is called with \<open>self\<close>, the request, the positional and the keyword arguments.
  It runs in a world \<open>'w\<close> (database, caches, logs) that it may change, and ends in an
  outcome \<open>'r\<close>. A wrapper ends either in an exception raised by the decorator itself
  (\<open>Inl\<close>) or in the outcome of the view (\<open>Inr\<close>); the wrappers contain no
  \<open>try\<close>, so whatever the view does, returning or raising, is its outcome.
\<close>

type_synonym ('s, 'a, 'k, 'w, 'r) view = "'s \<Rightarrow> request \<Rightarrow> 'a \<Rightarrow> 'k \<Rightarrow> 'w \<Rightarrow> 'r \<times> 'w"

definition sudo_required ::
  "(user \<Rightarrow> bool) \<Rightarrow> ('s, 'a, 'k, 'w, 'r) view \<Rightarrow> ('s, 'a, 'k, 'w, api_exception + 'r) view" where
  "sudo_required is_user_password_usable func self request args kwargs w =
     (if \<not> is_considered_sudo is_user_password_usable request
      then (Inl (SudoRequired (user request)), w)
      else (case func self request args kwargs w of (r, w') \<Rightarrow> (Inr r, w')))"

definition email_verification_required ::
  "(user \<Rightarrow> 'e list) \<Rightarrow> ('s, 'a, 'k, 'w, 'r) view \<Rightarrow> ('s, 'a, 'k, 'w, api_exception + 'r) view" where
  "email_verification_required get_verified_emails func self request args kwargs w =
     (if \<not> exists_qs (get_verified_emails (user request))
      then (Inl (EmailVerificationRequired (user request)), w)
      else (case func self request args kwargs w of (r, w') \<Rightarrow> (Inr r, w')))"

section \<open>sentry/middleware/sudo.py\<close>

text \<open>Python truth value of the password attribute: \<open>None\<close> and the empty string are false.\<close>

fun truthy :: "string option \<Rightarrow> bool" where
  "truthy None = False"
| "truthy (Some s) = (s \<noteq> [])"

text \<open>
  The method of the base class (package \<open>sudo.middleware\<close>) is a parameter:
  \<open>super().has_sudo_privileges(request)\<close>.
\<close>

definition has_sudo_privileges :: "(request \<Rightarrow> bool) \<Rightarrow> request \<Rightarrow> bool" where
  "has_sudo_privileges super_has_sudo_privileges request =
     (let usr = user request in
        if is_authenticated usr \<and> \<not> truthy (password usr) then True
        else super_has_sudo_privileges request)"

section \<open>sentry/db/models/manager/base_query_set.py\<close>

text \<open>
  A method takes \<open>self\<close>, the positional and the keyword arguments, and either raises
  or returns. A class body is the table of the methods it defines; looking a method up on
  a subclass finds the entry of its own body if there is one, and the base class's
  otherwise. Django's \<open>QuerySet\<close> is defined outside this module: it is a parameter.
\<close>

datatype py_exception = NotImplementedError string | AttributeError string

type_synonym ('q, 'a, 'k, 'r) py_method = "'q \<Rightarrow> 'a \<Rightarrow> 'k \<Rightarrow> py_exception + 'r"

definition BaseQuerySet_defer :: "('q, 'a, 'k, 'r) py_method" where
  "BaseQuerySet_defer self args kwargs = Inl (NotImplementedError ''Use ``values_list`` instead [performance].'')"

definition BaseQuerySet_only :: "('q, 'a, 'k, 'r) py_method" where
  "BaseQuerySet_only self args kwargs = Inl (NotImplementedError ''Use ``values_list`` instead [performance].'')"

definition BaseQuerySet_body :: "string \<rightharpoonup> ('q, 'a, 'k, 'r) py_method" where
  "BaseQuerySet_body = [''defer'' \<mapsto> BaseQuerySet_defer, ''only'' \<mapsto> BaseQuerySet_only]"

text \<open>Attribute lookup on a class with one base class.\<close>

definition resolve :: "(string \<rightharpoonup> 'm) \<Rightarrow> (string \<rightharpoonup> 'm) \<Rightarrow> (string \<rightharpoonup> 'm)" where
  "resolve base body name = (case body name of Some m \<Rightarrow> Some m | None \<Rightarrow> base name)"

definition BaseQuerySet ::
  "(string \<rightharpoonup> ('q, 'a, 'k, 'r) py_method) \<Rightarrow> (string \<rightharpoonup> ('q, 'a, 'k, 'r) py_method)" where
  "BaseQuerySet QuerySet = resolve QuerySet BaseQuerySet_body"

text \<open>The call \<open>qs.name(*args, **kwargs)\<close> on an instance \<open>qs\<close> of a class.\<close>

definition call_method ::
  "(string \<rightharpoonup> ('q, 'a, 'k, 'r) py_method) \<Rightarrow> string \<Rightarrow> ('q, 'a, 'k, 'r) py_method" where
  "call_method cls name self args kwargs =
     (case cls name of None \<Rightarrow> Inl (AttributeError name) | Some m \<Rightarrow> m self args kwargs)"

section \<open>The tag-values endpoint\<close>

text \<open>
  Modelled from the spec: the endpoint
  \<open>GET /api/0/issues/{group_id}/tags/{key}/values/\<close>, the event store and the tag
  aggregation behind it are missing from the sources; only the tests of the endpoint
  are there. The spec says the endpoint returns a JSON array of objects each containing at
  least a \<open>value\<close> field (and \<open>email\<close> for the synthetic \<open>user\<close> tag), ordered by
  recency by default or by descending occurrence count when \<open>sort=count\<close> is requested,
  and that the value of the user tag has the form \<open>id:<user_id>\<close>. The tests add the
  status code 200.
\<close>

text \<open>Modelled from the spec: the structured user of an event, its id and its email.\<close>

record user_context =
  user_id :: nat
  user_email :: string

text \<open>
  Modelled from the spec: a stored event, with the group (issue) it belongs to, the tags
  it was sent with, its user if any, and its time.
\<close>

record event =
  group_id :: nat
  tags :: "(string \<times> string) list"
  user_context :: "user_context option"
  timestamp :: nat

text \<open>
  Modelled from the spec: an object of the returned array, with the \<open>value\<close> and
  \<open>email\<close> fields and the two quantities the array is ordered by.
\<close>

record tag_value_record =
  tv_value :: string
  tv_email :: "string option"
  tv_count :: nat
  tv_last_seen :: nat

text \<open>Modelled from the spec: the response, status code and JSON array.\<close>

record response =
  status_code :: nat
  data :: "tag_value_record list"

text \<open>Modelled from the spec: the character of one decimal digit of the user id.\<close>

definition digit :: "nat \<Rightarrow> char" where
  "digit d = char_of (48 + d)"

text \<open>Modelled from the spec: the decimal digits of the user id, most significant first.\<close>

function str_nat :: "nat \<Rightarrow> string" where
  "str_nat n = (if n < 10 then [digit n] else str_nat (n div 10) @ [digit (n mod 10)])"
  by pat_completeness auto
termination
  by (relation "measure id") auto

declare str_nat.simps [simp del]

text \<open>Modelled from the spec: the synthetic user tag, \<open>id:<user_id>\<close>.\<close>

definition user_tag_value :: "user_context \<Rightarrow> string" where
  "user_tag_value u = ''id:'' @ str_nat (user_id u)"

text \<open>
  Modelled from the spec: the tags an event is indexed under, the synthetic user tag
  before the tags the event was sent with.
\<close>

definition event_tags :: "event \<Rightarrow> (string \<times> string) list" where
  "event_tags e =
     (case user_context e of None \<Rightarrow> [] | Some u \<Rightarrow> [(''user'', user_tag_value u)]) @ tags e"

text \<open>Modelled from the spec: the value an event has for a tag key, if it has one.\<close>

definition tag_of :: "string \<Rightarrow> event \<Rightarrow> string option" where
  "tag_of key e = map_of (event_tags e) key"

text \<open>Modelled from the spec: the stored events of the group \<open>group_id\<close>.\<close>

definition group_events :: "event list \<Rightarrow> nat \<Rightarrow> event list" where
  "group_events store gid = filter (\<lambda>e. group_id e = gid) store"

text \<open>Modelled from the spec: the occurrences of a tag value, the events that carry it.\<close>

definition carrying :: "string \<Rightarrow> string \<Rightarrow> event list \<Rightarrow> event list" where
  "carrying key v es = filter (\<lambda>e. tag_of key e = Some v) es"

text \<open>Modelled from the spec: the \<open>email\<close> field, present for the user tag.\<close>

definition email_of :: "string \<Rightarrow> event list \<Rightarrow> string option" where
  "email_of key es =
     (if key = ''user''
      then (case es of [] \<Rightarrow> None | e # _ \<Rightarrow> map_option user_email (user_context e))
      else None)"

text \<open>
  Modelled from the spec: the record of one tag value, with its occurrence count and the
  time it was last seen.
\<close>

definition record_for :: "string \<Rightarrow> event list \<Rightarrow> string \<Rightarrow> tag_value_record" where
  "record_for key es v =
     (let seen = carrying key v es in
        \<lparr>tv_value = v,
         tv_email = email_of key seen,
         tv_count = length seen,
         tv_last_seen = fold max (map timestamp seen) 0\<rparr>)"

text \<open>Modelled from the spec: one record per distinct value of the tag in the group.\<close>

definition tag_values :: "string \<Rightarrow> event list \<Rightarrow> tag_value_record list" where
  "tag_values key es = map (record_for key es) (remdups (List.map_filter (tag_of key) es))"

text \<open>
  Modelled from the spec: the order of the array, by descending occurrence count for
  \<open>sort=count\<close> and by recency (latest first) otherwise.
\<close>

definition order_by :: "string option \<Rightarrow> tag_value_record list \<Rightarrow> tag_value_record list" where
  "order_by sort_param rs =
     (if sort_param = Some ''count''
      then sort_key (\<lambda>r. - int (tv_count r)) rs
      else sort_key (\<lambda>r. - int (tv_last_seen r)) rs)"

text \<open>
  Modelled from the spec: the endpoint itself, for the group, the tag key and the
  optional \<open>sort\<close> query parameter; the status code 200 is the one its tests expect.
\<close>

definition get_group_tagkey_values ::
  "event list \<Rightarrow> nat \<Rightarrow> string \<Rightarrow> string option \<Rightarrow> response" where
  "get_group_tagkey_values store gid key sort_param =
     \<lparr>status_code = 200, data = order_by sort_param (tag_values key (group_events store gid))\<rparr>"

section \<open>Properties of the decorators\<close>

text \<open>
  C1. For every request and every view, the wrapper made by \<open>sudo_required\<close> raises
  \<open>SudoRequired\<close>, carrying \<open>request.user\<close>, if and only if
  \<open>is_considered_sudo(request)\<close> is false; that is, if and only if
  \<open>request.is_sudo()\<close> is false, \<open>request.auth\<close> is neither an \<open>ApiKey\<close> nor an
  \<open>ApiToken\<close>, and it is not the case that the user is authenticated with an unusable
  password. Otherwise the wrapper ends in the result of the view, in the world the view
  left.
\<close>

theorem sudo_required_raises_iff:
  "(fst (sudo_required usable func self request args kwargs w) = Inl (SudoRequired (user request))
      \<longleftrightarrow> \<not> is_considered_sudo usable request)
   \<and> (\<not> is_considered_sudo usable request
      \<longleftrightarrow> \<not> is_sudo request
          \<and> \<not> isinstance_ApiKey (auth request)
          \<and> \<not> isinstance_ApiToken (auth request)
          \<and> \<not> (is_authenticated (user request) \<and> \<not> usable (user request)))
   \<and> (is_considered_sudo usable request
      \<longrightarrow> sudo_required usable func self request args kwargs w
          = (Inr (fst (func self request args kwargs w)), snd (func self request args kwargs w)))"
  by (simp add: sudo_required_def is_considered_sudo_def Let_def split: prod.split)

theorem sudo_required_raises_iff_witness:
  "fst (sudo_required (\<lambda>u. password u \<noteq> None) (\<lambda>s rq a k n. (''ok'', Suc n)) ''view''
        \<lparr>user = \<lparr>username = ''anne'', is_authenticated = True, password = Some ''pw''\<rparr>,
         auth = NoAuth, is_sudo = False\<rparr> [Suc 0] [''k''] (0::nat))
     = Inl (SudoRequired \<lparr>username = ''anne'', is_authenticated = True, password = Some ''pw''\<rparr>)
   \<and> is_considered_sudo (\<lambda>u. password u \<noteq> None)
        \<lparr>user = \<lparr>username = ''anne'', is_authenticated = True, password = Some ''pw''\<rparr>,
         auth = ApiKey ''key'', is_sudo = False\<rparr>
   \<and> sudo_required (\<lambda>u. password u \<noteq> None) (\<lambda>s rq a k n. (''ok'', Suc n)) ''view''
        \<lparr>user = \<lparr>username = ''anne'', is_authenticated = True, password = Some ''pw''\<rparr>,
         auth = ApiKey ''key'', is_sudo = False\<rparr> [Suc 0] [''k''] (0::nat)
     = (Inr ''ok'', Suc 0)"
  using sudo_required_raises_iff [where usable = "\<lambda>u. password u \<noteq> None"
        and func = "\<lambda>s rq a k n. (''ok'', Suc n)" and self = "''view''"
        and request = "\<lparr>user = \<lparr>username = ''anne'', is_authenticated = True, password = Some ''pw''\<rparr>,
         auth = NoAuth, is_sudo = False\<rparr>" and args = "[Suc 0]" and kwargs = "[''k'']" and w = "0::nat"]
    sudo_required_raises_iff [where usable = "\<lambda>u. password u \<noteq> None"
        and func = "\<lambda>s rq a k n. (''ok'', Suc n)" and self = "''view''"
        and request = "\<lparr>user = \<lparr>username = ''anne'', is_authenticated = True, password = Some ''pw''\<rparr>,
         auth = ApiKey ''key'', is_sudo = False\<rparr>" and args = "[Suc 0]" and kwargs = "[''k'']" and w = "0::nat"]
  by simp

text \<open>
  C2. For every request and every view, the wrapper made by
  \<open>email_verification_required\<close> raises \<open>EmailVerificationRequired\<close>, carrying
  \<open>request.user\<close>, if and only if \<open>request.user.get_verified_emails()\<close> is empty;
  otherwise the wrapper ends in the result of the view.
\<close>

theorem email_verification_required_raises_iff:
  "(fst (email_verification_required get_verified_emails func self request args kwargs w)
        = Inl (EmailVerificationRequired (user request))
      \<longleftrightarrow> get_verified_emails (user request) = [])
   \<and> (get_verified_emails (user request) \<noteq> []
      \<longrightarrow> email_verification_required get_verified_emails func self request args kwargs w
          = (Inr (fst (func self request args kwargs w)), snd (func self request args kwargs w)))"
  by (simp add: email_verification_required_def exists_qs_def split: prod.split)

theorem email_verification_required_raises_iff_witness:
  "fst (email_verification_required (\<lambda>u. if username u = ''anne'' then [''anne@example.com''] else [])
        (\<lambda>s rq a k n. (''ok'', Suc n)) ''view''
        \<lparr>user = \<lparr>username = ''bob'', is_authenticated = True, password = Some ''pw''\<rparr>,
         auth = NoAuth, is_sudo = False\<rparr> [Suc 0] [''k''] (0::nat))
     = Inl (EmailVerificationRequired \<lparr>username = ''bob'', is_authenticated = True, password = Some ''pw''\<rparr>)
   \<and> email_verification_required (\<lambda>u. if username u = ''anne'' then [''anne@example.com''] else [])
        (\<lambda>s rq a k n. (''ok'', Suc n)) ''view''
        \<lparr>user = \<lparr>username = ''anne'', is_authenticated = True, password = Some ''pw''\<rparr>,
         auth = NoAuth, is_sudo = False\<rparr> [Suc 0] [''k''] (0::nat)
     = (Inr ''ok'', Suc 0)"
  using email_verification_required_raises_iff [where
        get_verified_emails = "\<lambda>u. if username u = ''anne'' then [''anne@example.com''] else []"
        and func = "\<lambda>s rq a k n. (''ok'', Suc n)" and self = "''view''"
        and request = "\<lparr>user = \<lparr>username = ''bob'', is_authenticated = True, password = Some ''pw''\<rparr>,
         auth = NoAuth, is_sudo = False\<rparr>" and args = "[Suc 0]" and kwargs = "[''k'']" and w = "0::nat"]
    email_verification_required_raises_iff [where
        get_verified_emails = "\<lambda>u. if username u = ''anne'' then [''anne@example.com''] else []"
        and func = "\<lambda>s rq a k n. (''ok'', Suc n)" and self = "''view''"
        and request = "\<lparr>user = \<lparr>username = ''anne'', is_authenticated = True, password = Some ''pw''\<rparr>,
         auth = NoAuth, is_sudo = False\<rparr>" and args = "[Suc 0]" and kwargs = "[''k'']" and w = "0::nat"]
  by simp

text \<open>
  C10. The exemption for users without a usable password applies to authenticated
  users only: the predicate is \<open>is_sudo() or ApiKey or ApiToken or (is_authenticated and
  not usable)\<close>, so a request with no sudo flag and neither kind of API credential,
  whose user is not authenticated, is not considered sudo, whatever
  \<open>is_user_password_usable\<close> answers.
\<close>

theorem unauthenticated_never_considered_sudo:
  "(is_considered_sudo usable request
      \<longleftrightarrow> is_sudo request
          \<or> isinstance_ApiKey (auth request)
          \<or> isinstance_ApiToken (auth request)
          \<or> (is_authenticated (user request) \<and> \<not> usable (user request)))
   \<and> (\<not> is_sudo request
        \<and> \<not> isinstance_ApiKey (auth request)
        \<and> \<not> isinstance_ApiToken (auth request)
        \<and> \<not> is_authenticated (user request)
      \<longrightarrow> \<not> is_considered_sudo usable request)"
  by (simp add: is_considered_sudo_def Let_def)

theorem unauthenticated_never_considered_sudo_witness:
  "\<not> is_considered_sudo (\<lambda>u. False)
      \<lparr>user = \<lparr>username = [], is_authenticated = False, password = None\<rparr>,
       auth = OtherAuth ''session'', is_sudo = False\<rparr>"
  using unauthenticated_never_considered_sudo [where usable = "\<lambda>u. False"
      and request = "\<lparr>user = \<lparr>username = [], is_authenticated = False, password = None\<rparr>,
       auth = OtherAuth ''session'', is_sudo = False\<rparr>"]
  by simp

text \<open>
  C8. Both authorization failures leave the wrapper as exceptions: when a check fails,
  the wrapper ends in the raised exception and in no return value, whatever the view
  is. Neither decorator catches the other's condition either: stacked in either order,
  the exception raised by the inner wrapper is handed on by the outer one as it is.
\<close>

theorem authorization_failures_are_raised:
  "(\<not> is_considered_sudo usable request
      \<longrightarrow> fst (sudo_required usable func self request args kwargs w)
            = Inl (SudoRequired (user request))
          \<and> (\<forall>r. fst (sudo_required usable func self request args kwargs w) \<noteq> Inr r))
   \<and> (\<not> exists_qs (get_verified_emails (user request))
      \<longrightarrow> fst (email_verification_required get_verified_emails func self request args kwargs w)
            = Inl (EmailVerificationRequired (user request))
          \<and> (\<forall>r. fst (email_verification_required get_verified_emails func self request args kwargs w)
                \<noteq> Inr r))
   \<and> (is_considered_sudo usable request \<and> \<not> exists_qs (get_verified_emails (user request))
      \<longrightarrow> fst (sudo_required usable (email_verification_required get_verified_emails func)
                 self request args kwargs w)
            = Inr (Inl (EmailVerificationRequired (user request))))
   \<and> (exists_qs (get_verified_emails (user request)) \<and> \<not> is_considered_sudo usable request
      \<longrightarrow> fst (email_verification_required get_verified_emails (sudo_required usable func)
                 self request args kwargs w)
            = Inr (Inl (SudoRequired (user request))))"
  by (simp add: sudo_required_def email_verification_required_def)

theorem authorization_failures_are_raised_witness:
  "fst (sudo_required (\<lambda>u. True) (\<lambda>s rq a k n. (''ok'', Suc n)) ''view''
        \<lparr>user = \<lparr>username = ''bob'', is_authenticated = True, password = Some ''pw''\<rparr>,
         auth = NoAuth, is_sudo = False\<rparr> [Suc 0] [''k''] (0::nat))
     = Inl (SudoRequired \<lparr>username = ''bob'', is_authenticated = True, password = Some ''pw''\<rparr>)
   \<and> fst (email_verification_required (\<lambda>u. []::string list) (\<lambda>s rq a k n. (''ok'', Suc n)) ''view''
        \<lparr>user = \<lparr>username = ''bob'', is_authenticated = True, password = Some ''pw''\<rparr>,
         auth = NoAuth, is_sudo = False\<rparr> [Suc 0] [''k''] (0::nat))
     = Inl (EmailVerificationRequired \<lparr>username = ''bob'', is_authenticated = True, password = Some ''pw''\<rparr>)
   \<and> fst (sudo_required (\<lambda>u. True)
          (email_verification_required (\<lambda>u. []::string list) (\<lambda>s rq a k n. (''ok'', Suc n))) ''view''
        \<lparr>user = \<lparr>username = ''bob'', is_authenticated = True, password = Some ''pw''\<rparr>,
         auth = NoAuth, is_sudo = True\<rparr> [Suc 0] [''k''] (0::nat))
     = Inr (Inl (EmailVerificationRequired \<lparr>username = ''bob'', is_authenticated = True, password = Some ''pw''\<rparr>))
   \<and> fst (email_verification_required (\<lambda>u. [''bob@example.com''])
          (sudo_required (\<lambda>u. True) (\<lambda>s rq a k n. (''ok'', Suc n))) ''view''
        \<lparr>user = \<lparr>username = ''bob'', is_authenticated = True, password = Some ''pw''\<rparr>,
         auth = NoAuth, is_sudo = False\<rparr> [Suc 0] [''k''] (0::nat))
     = Inr (Inl (SudoRequired \<lparr>username = ''bob'', is_authenticated = True, password = Some ''pw''\<rparr>))"
  using authorization_failures_are_raised [where usable = "\<lambda>u. True"
        and get_verified_emails = "\<lambda>u. []::string list"
        and func = "\<lambda>s rq a k n. (''ok'', Suc n)" and self = "''view''"
        and request = "\<lparr>user = \<lparr>username = ''bob'', is_authenticated = True, password = Some ''pw''\<rparr>,
         auth = NoAuth, is_sudo = False\<rparr>" and args = "[Suc 0]" and kwargs = "[''k'']" and w = "0::nat"]
    authorization_failures_are_raised [where usable = "\<lambda>u. True"
        and get_verified_emails = "\<lambda>u. []::string list"
        and func = "\<lambda>s rq a k n. (''ok'', Suc n)" and self = "''view''"
        and request = "\<lparr>user = \<lparr>username = ''bob'', is_authenticated = True, password = Some ''pw''\<rparr>,
         auth = NoAuth, is_sudo = True\<rparr>" and args = "[Suc 0]" and kwargs = "[''k'']" and w = "0::nat"]
    authorization_failures_are_raised [where usable = "\<lambda>u. True"
        and get_verified_emails = "\<lambda>u. [''bob@example.com'']"
        and func = "\<lambda>s rq a k n. (''ok'', Suc n)" and self = "''view''"
        and request = "\<lparr>user = \<lparr>username = ''bob'', is_authenticated = True, password = Some ''pw''\<rparr>,
         auth = NoAuth, is_sudo = False\<rparr>" and args = "[Suc 0]" and kwargs = "[''k'']" and w = "0::nat"]
  by (simp add: is_considered_sudo_def exists_qs_def)

text \<open>
  C9. When the check passes, each wrapper behaves as the single call
  \<open>func(self, request, *args, **kwargs)\<close>: it ends in the result of the view and in the
  world the view left, and a view that records its calls has recorded exactly one, with
  the arguments the wrapper was given. When the check fails the world is unchanged and
  the recording view has recorded nothing.
\<close>

theorem decorators_are_transparent:
  "(is_considered_sudo usable request
      \<longrightarrow> sudo_required usable func self request args kwargs w
            = (Inr (fst (func self request args kwargs w)), snd (func self request args kwargs w))
          \<and> snd (sudo_required usable (\<lambda>s rq a k calls. (res, calls @ [(s, rq, a, k)]))
                 self request args kwargs [])
            = [(self, request, args, kwargs)])
   \<and> (\<not> is_considered_sudo usable request
      \<longrightarrow> sudo_required usable func self request args kwargs w
            = (Inl (SudoRequired (user request)), w)
          \<and> snd (sudo_required usable (\<lambda>s rq a k calls. (res, calls @ [(s, rq, a, k)]))
                 self request args kwargs [])
            = [])
   \<and> (exists_qs (get_verified_emails (user request))
      \<longrightarrow> email_verification_required get_verified_emails func self request args kwargs w
            = (Inr (fst (func self request args kwargs w)), snd (func self request args kwargs w))
          \<and> snd (email_verification_required get_verified_emails
                  (\<lambda>s rq a k calls. (res, calls @ [(s, rq, a, k)])) self request args kwargs [])
            = [(self, request, args, kwargs)])
   \<and> (\<not> exists_qs (get_verified_emails (user request))
      \<longrightarrow> email_verification_required get_verified_emails func self request args kwargs w
            = (Inl (EmailVerificationRequired (user request)), w)
          \<and> snd (email_verification_required get_verified_emails
                  (\<lambda>s rq a k calls. (res, calls @ [(s, rq, a, k)])) self request args kwargs [])
            = [])"
  by (simp add: sudo_required_def email_verification_required_def split: prod.split)

theorem decorators_are_transparent_witness:
  "sudo_required (\<lambda>u. True) (\<lambda>s rq a k n. (a @ k, Suc n)) ''view''
        \<lparr>user = \<lparr>username = ''bob'', is_authenticated = True, password = Some ''pw''\<rparr>,
         auth = ApiToken ''t'', is_sudo = False\<rparr> [''a''] [''k''] (0::nat)
     = (Inr [''a'', ''k''], Suc 0)
   \<and> snd (sudo_required (\<lambda>u. True) (\<lambda>s rq a k calls. (''ok'', calls @ [(s, rq, a, k)])) ''view''
        \<lparr>user = \<lparr>username = ''bob'', is_authenticated = True, password = Some ''pw''\<rparr>,
         auth = ApiToken ''t'', is_sudo = False\<rparr> [''a''] [''k''] [])
     = [(''view'', \<lparr>user = \<lparr>username = ''bob'', is_authenticated = True, password = Some ''pw''\<rparr>,
         auth = ApiToken ''t'', is_sudo = False\<rparr>, [''a''], [''k''])]
   \<and> email_verification_required (\<lambda>u. [''bob@example.com'']) (\<lambda>s rq a k n. (a @ k, Suc n)) ''view''
        \<lparr>user = \<lparr>username = ''bob'', is_authenticated = True, password = Some ''pw''\<rparr>,
         auth = ApiToken ''t'', is_sudo = False\<rparr> [''a''] [''k''] (0::nat)
     = (Inr [''a'', ''k''], Suc 0)
   \<and> sudo_required (\<lambda>u. True) (\<lambda>s rq a k n. (a @ k, Suc n)) ''view''
        \<lparr>user = \<lparr>username = ''bob'', is_authenticated = True, password = Some ''pw''\<rparr>,
         auth = NoAuth, is_sudo = False\<rparr> [''a''] [''k''] (0::nat)
     = (Inl (SudoRequired \<lparr>username = ''bob'', is_authenticated = True, password = Some ''pw''\<rparr>), 0)
   \<and> snd (sudo_required (\<lambda>u. True) (\<lambda>s rq a k calls. (''ok'', calls @ [(s, rq, a, k)])) ''view''
        \<lparr>user = \<lparr>username = ''bob'', is_authenticated = True, password = Some ''pw''\<rparr>,
         auth = NoAuth, is_sudo = False\<rparr> [''a''] [''k''] [])
     = []
   \<and> email_verification_required (\<lambda>u. []::string list) (\<lambda>s rq a k n. (a @ k, Suc n)) ''view''
        \<lparr>user = \<lparr>username = ''bob'', is_authenticated = True, password = Some ''pw''\<rparr>,
         auth = NoAuth, is_sudo = False\<rparr> [''a''] [''k''] (0::nat)
     = (Inl (EmailVerificationRequired \<lparr>username = ''bob'', is_authenticated = True, password = Some ''pw''\<rparr>), 0)"
  using decorators_are_transparent [where usable = "\<lambda>u. True"
        and get_verified_emails = "\<lambda>u. [''bob@example.com'']"
        and func = "\<lambda>s rq a k n. (a @ k, Suc n)" and self = "''view''" and res = "''ok''"
        and request = "\<lparr>user = \<lparr>username = ''bob'', is_authenticated = True, password = Some ''pw''\<rparr>,
         auth = ApiToken ''t'', is_sudo = False\<rparr>" and args = "[''a'']" and kwargs = "[''k'']" and w = "0::nat"]
    decorators_are_transparent [where usable = "\<lambda>u. True"
        and get_verified_emails = "\<lambda>u. []::string list"
        and func = "\<lambda>s rq a k n. (a @ k, Suc n)" and self = "''view''" and res = "''ok''"
        and request = "\<lparr>user = \<lparr>username = ''bob'', is_authenticated = True, password = Some ''pw''\<rparr>,
         auth = NoAuth, is_sudo = False\<rparr>" and args = "[''a'']" and kwargs = "[''k'']" and w = "0::nat"]
  by (simp add: is_considered_sudo_def exists_qs_def)

section \<open>Properties of the middleware\<close>

text \<open>
  C4. \<open>SudoMiddleware.has_sudo_privileges\<close> returns \<open>True\<close> whenever the user of the
  request is authenticated and the password field is absent or empty; for every other
  request it returns what the method of the base class returns for that request.
\<close>

theorem has_sudo_privileges_passwordless:
  "(is_authenticated (user request)
      \<and> (password (user request) = None \<or> password (user request) = Some [])
      \<longrightarrow> has_sudo_privileges super_has_sudo_privileges request = True)
   \<and> (\<not> (is_authenticated (user request)
          \<and> (password (user request) = None \<or> password (user request) = Some []))
      \<longrightarrow> has_sudo_privileges super_has_sudo_privileges request
          = super_has_sudo_privileges request)"
  by (cases "password (user request)") (auto simp: has_sudo_privileges_def Let_def)

theorem has_sudo_privileges_passwordless_witness:
  "has_sudo_privileges (\<lambda>rq. False)
      \<lparr>user = \<lparr>username = ''sso'', is_authenticated = True, password = Some []\<rparr>,
       auth = NoAuth, is_sudo = False\<rparr> = True
   \<and> has_sudo_privileges is_sudo
      \<lparr>user = \<lparr>username = ''anne'', is_authenticated = True, password = Some ''pw''\<rparr>,
       auth = NoAuth, is_sudo = False\<rparr> = False"
  using has_sudo_privileges_passwordless [where super_has_sudo_privileges = "\<lambda>rq. False"
      and request = "\<lparr>user = \<lparr>username = ''sso'', is_authenticated = True, password = Some []\<rparr>,
       auth = NoAuth, is_sudo = False\<rparr>"]
    has_sudo_privileges_passwordless [where super_has_sudo_privileges = is_sudo
      and request = "\<lparr>user = \<lparr>username = ''anne'', is_authenticated = True, password = Some ''pw''\<rparr>,
       auth = NoAuth, is_sudo = False\<rparr>"]
  by simp

section \<open>Properties of the queryset\<close>

lemma BaseQuerySet_body_dom:
  "dom (BaseQuerySet_body :: string \<rightharpoonup> ('q, 'a, 'k, 'r) py_method) = {''defer'', ''only''}"
  unfolding BaseQuerySet_body_def by auto

lemma resolve_inherits:
  "name \<notin> dom body \<Longrightarrow> resolve base body name = base name"
  by (simp add: resolve_def domIff)

text \<open>
  C3. The body of \<open>BaseQuerySet\<close> defines exactly two methods, \<open>defer\<close> and
  \<open>only\<close>; called with any arguments, both raise \<open>NotImplementedError\<close>. Every other
  method, \<open>values\<close> and \<open>values_list\<close> among them, is the method of the base class.
\<close>

theorem BaseQuerySet_disables_defer_and_only:
  fixes QuerySet :: "string \<rightharpoonup> ('q, 'a, 'k, 'r) py_method"
  shows "dom (BaseQuerySet_body :: string \<rightharpoonup> ('q, 'a, 'k, 'r) py_method) = {''defer'', ''only''}
   \<and> (\<forall>self args kwargs. call_method (BaseQuerySet QuerySet) ''defer'' self args kwargs
          = Inl (NotImplementedError ''Use ``values_list`` instead [performance].''))
   \<and> (\<forall>self args kwargs. call_method (BaseQuerySet QuerySet) ''only'' self args kwargs
          = Inl (NotImplementedError ''Use ``values_list`` instead [performance].''))
   \<and> (\<forall>name. name \<noteq> ''defer'' \<and> name \<noteq> ''only''
          \<longrightarrow> BaseQuerySet QuerySet name = QuerySet name
            \<and> call_method (BaseQuerySet QuerySet) name = call_method QuerySet name)
   \<and> call_method (BaseQuerySet QuerySet) ''values'' = call_method QuerySet ''values''
   \<and> call_method (BaseQuerySet QuerySet) ''values_list'' = call_method QuerySet ''values_list''"
proof -
  have body: "dom (BaseQuerySet_body :: string \<rightharpoonup> ('q, 'a, 'k, 'r) py_method) = {''defer'', ''only''}"
    by (rule BaseQuerySet_body_dom)
  have d: "call_method (BaseQuerySet QuerySet) ''defer'' self args kwargs
          = Inl (NotImplementedError ''Use ``values_list`` instead [performance].'')" for self args kwargs
    by (simp add: call_method_def BaseQuerySet_def resolve_def BaseQuerySet_body_def
        BaseQuerySet_defer_def)
  have o: "call_method (BaseQuerySet QuerySet) ''only'' self args kwargs
          = Inl (NotImplementedError ''Use ``values_list`` instead [performance].'')" for self args kwargs
    by (simp add: call_method_def BaseQuerySet_def resolve_def BaseQuerySet_body_def
        BaseQuerySet_only_def)
  have rest: "BaseQuerySet QuerySet name = QuerySet name"
    if "name \<noteq> ''defer'' \<and> name \<noteq> ''only''" for name
    unfolding BaseQuerySet_def using that body by (intro resolve_inherits) simp
  have call_rest: "call_method (BaseQuerySet QuerySet) name = call_method QuerySet name"
    if "name \<noteq> ''defer'' \<and> name \<noteq> ''only''" for name
    using rest [OF that] by (intro ext) (simp add: call_method_def)
  have v: "call_method (BaseQuerySet QuerySet) ''values'' = call_method QuerySet ''values''"
    by (rule call_rest) simp
  have vl: "call_method (BaseQuerySet QuerySet) ''values_list'' = call_method QuerySet ''values_list''"
    by (rule call_rest) simp
  show ?thesis
    using body d o rest call_rest v vl by (intro conjI allI impI) assumption+
qed

theorem BaseQuerySet_disables_defer_and_only_witness:
  "call_method (BaseQuerySet [''values_list'' \<mapsto> (\<lambda>self args kwargs. Inr (args @ self)),
                              ''defer'' \<mapsto> (\<lambda>self args kwargs. Inr self)])
      ''defer'' ''qs'' ''name'' ''kw''
     = Inl (NotImplementedError ''Use ``values_list`` instead [performance].'')
   \<and> call_method (BaseQuerySet [''values_list'' \<mapsto> (\<lambda>self args kwargs. Inr (args @ self)),
                              ''defer'' \<mapsto> (\<lambda>self args kwargs. Inr self)])
      ''values_list'' ''qs'' ''name'' ''kw''
     = Inr ''nameqs''"
proof -
  let ?QS = "[''values_list'' \<mapsto> (\<lambda>self args kwargs. Inr (args @ self)),
              ''defer'' \<mapsto> (\<lambda>(self :: string) (args :: string) (kwargs :: string). Inr self)]
             :: string \<rightharpoonup> (string, string, string, string) py_method"
  note t = BaseQuerySet_disables_defer_and_only [where QuerySet = ?QS]
  note t_defer = t [THEN conjunct2, THEN conjunct1, rule_format]
  note t_vl = t [THEN conjunct2, THEN conjunct2, THEN conjunct2, THEN conjunct2, THEN conjunct2]
  have a: "call_method ?QS ''values_list'' ''qs'' ''name'' ''kw'' = Inr ''nameqs''"
    by (simp add: call_method_def)
  have b: "call_method (BaseQuerySet ?QS) ''values_list'' ''qs'' ''name'' ''kw'' = Inr ''nameqs''"
    by (simp only: t_vl a)
  show ?thesis
    by (rule conjI [OF t_defer b])
qed

section \<open>Properties of the tag-values endpoint\<close>

text \<open>The decimal rendering is injective, so distinct user ids give distinct tag values.\<close>

lemma str_nat_nonempty: "str_nat n \<noteq> []"
  by (subst str_nat.simps) simp

lemma digit_inj:
  assumes "a < 10" and "b < 10" and "digit a = digit b"
  shows "a = b"
proof -
  from assms(3) have "(of_char (digit a) :: nat) = of_char (digit b)"
    by simp
  then have "(48 + a) mod 256 = (48 + b) mod 256"
    by (simp add: digit_def)
  with assms(1,2) show ?thesis
    by simp
qed

lemma str_nat_inj: "str_nat m = str_nat n \<Longrightarrow> m = n"
proof (induction m arbitrary: n rule: str_nat.induct)
  case (1 m)
  show ?case
  proof (cases "m < 10")
    case small: True
    show ?thesis
    proof (cases "n < 10")
      case True
      with small "1.prems" show ?thesis
        by (subst (asm) str_nat.simps, subst (asm) (2) str_nat.simps) (simp add: digit_inj)
    next
      case False
      with small "1.prems" str_nat_nonempty [of "n div 10"] show ?thesis
        by (subst (asm) str_nat.simps, subst (asm) (2) str_nat.simps) simp
    qed
  next
    case big: False
    show ?thesis
    proof (cases "n < 10")
      case True
      with big "1.prems" str_nat_nonempty [of "m div 10"] show ?thesis
        by (subst (asm) str_nat.simps, subst (asm) (2) str_nat.simps) simp
    next
      case False
      from big False "1.prems"
      have eq: "str_nat (m div 10) @ [digit (m mod 10)] = str_nat (n div 10) @ [digit (n mod 10)]"
        by (subst (asm) str_nat.simps, subst (asm) (2) str_nat.simps) simp
      then have "str_nat (m div 10) = str_nat (n div 10)" and "digit (m mod 10) = digit (n mod 10)"
        by simp_all
      with "1.IH" [OF big] have "m div 10 = n div 10" and "m mod 10 = n mod 10"
        by (auto intro: digit_inj)
      then show ?thesis
        by (metis div_mult_mod_eq)
    qed
  qed
qed

lemma tag_of_user:
  "user_context e = Some u \<Longrightarrow> tag_of ''user'' e = Some (''id:'' @ str_nat (user_id u))"
  by (simp add: tag_of_def event_tags_def user_tag_value_def)

lemma tag_of_single:
  "event_tags e = [(key, v)] \<Longrightarrow> tag_of key e = Some v"
  by (simp add: tag_of_def)

lemma user_tag_value_inj:
  "''id:'' @ str_nat m = ''id:'' @ str_nat n \<Longrightarrow> m = n"
  by (rule str_nat_inj) simp

lemma order_by_single: "order_by sort_param [r] = [r]"
  by (simp add: order_by_def)

lemma tag_values_single:
  "tag_of key e = Some v \<Longrightarrow> tag_values key [e] = [record_for key [e] v]"
  by (simp add: tag_values_def)

lemma record_for_single:
  "tag_of key e = Some v \<Longrightarrow>
   record_for key [e] v
     = \<lparr>tv_value = v, tv_email = email_of key [e], tv_count = 1, tv_last_seen = timestamp e\<rparr>"
  by (simp add: record_for_def carrying_def Let_def)

lemma sort_count_descending:
  assumes "i \<le> j" and "j < length (order_by (Some ''count'') rs)"
  shows "tv_count (order_by (Some ''count'') rs ! j) \<le> tv_count (order_by (Some ''count'') rs ! i)"
proof -
  let ?f = "\<lambda>r. - int (tv_count r)"
  let ?xs = "sort_key ?f rs"
  have xs: "order_by (Some ''count'') rs = ?xs"
    by (simp add: order_by_def)
  from assms have j: "j < length ?xs" and i: "i < length ?xs"
    unfolding xs by simp_all
  have "sorted (map ?f ?xs)"
    by (rule sorted_sort_key)
  then have "map ?f ?xs ! i \<le> map ?f ?xs ! j"
    using assms(1) j by (intro sorted_nth_mono) simp_all
  then have "?f (?xs ! i) \<le> ?f (?xs ! j)"
    unfolding nth_map [OF i] nth_map [OF j] .
  then show ?thesis
    unfolding xs by simp
qed

text \<open>
  C5. For a group with a single stored event carrying one tag, the request for the
  values of that tag returns status 200 and an array of exactly one record, whose
  \<open>value\<close> is the stored tag value.
\<close>

theorem single_tagged_event:
  assumes "group_events store gid = [e]" and "event_tags e = [(key, v)]"
  shows "status_code (get_group_tagkey_values store gid key sort_param) = 200
       \<and> length (data (get_group_tagkey_values store gid key sort_param)) = 1
       \<and> tv_value (data (get_group_tagkey_values store gid key sort_param) ! 0) = v"
proof -
  from assms(2) have "tag_of key e = Some v"
    by (rule tag_of_single)
  then have "tag_values key [e] = [record_for key [e] v]"
    by (rule tag_values_single)
  with assms(1) have "data (get_group_tagkey_values store gid key sort_param) = [record_for key [e] v]"
    by (simp add: get_group_tagkey_values_def order_by_single)
  then show ?thesis
    by (simp add: get_group_tagkey_values_def record_for_def Let_def)
qed

theorem single_tagged_event_witness:
  "status_code (get_group_tagkey_values
      [\<lparr>group_id = 1, tags = [(''foo'', ''bar'')], user_context = None, timestamp = 5\<rparr>,
       \<lparr>group_id = 2, tags = [(''foo'', ''baz'')], user_context = None, timestamp = 6\<rparr>]
      1 ''foo'' None) = 200
   \<and> length (data (get_group_tagkey_values
      [\<lparr>group_id = 1, tags = [(''foo'', ''bar'')], user_context = None, timestamp = 5\<rparr>,
       \<lparr>group_id = 2, tags = [(''foo'', ''baz'')], user_context = None, timestamp = 6\<rparr>]
      1 ''foo'' None)) = 1
   \<and> tv_value (data (get_group_tagkey_values
      [\<lparr>group_id = 1, tags = [(''foo'', ''bar'')], user_context = None, timestamp = 5\<rparr>,
       \<lparr>group_id = 2, tags = [(''foo'', ''baz'')], user_context = None, timestamp = 6\<rparr>]
      1 ''foo'' None) ! 0) = ''bar''"
proof -
  let ?e = "\<lparr>group_id = 1, tags = [(''foo'', ''bar'')], user_context = None, timestamp = 5\<rparr>"
  let ?store = "[?e, \<lparr>group_id = 2, tags = [(''foo'', ''baz'')], user_context = None, timestamp = 6\<rparr>]"
  have g: "group_events ?store 1 = [?e]"
    by (simp add: group_events_def)
  have t: "event_tags ?e = [(''foo'', ''bar'')]"
    by (simp add: event_tags_def)
  show ?thesis
    by (rule single_tagged_event [OF g t])
qed

text \<open>
  C6. For a group with a single stored event whose user context has the id
  \<open>user_id\<close> and an email, the request for the values of the \<open>user\<close> tag returns
  a single record whose \<open>value\<close> is \<open>id:<user_id>\<close> and whose \<open>email\<close> is the
  email of the user.
\<close>

theorem user_tag_event:
  assumes "group_events store gid = [e]" and "user_context e = Some u"
  shows "status_code (get_group_tagkey_values store gid ''user'' sort_param) = 200
       \<and> length (data (get_group_tagkey_values store gid ''user'' sort_param)) = 1
       \<and> tv_value (data (get_group_tagkey_values store gid ''user'' sort_param) ! 0)
           = ''id:'' @ str_nat (user_id u)
       \<and> tv_email (data (get_group_tagkey_values store gid ''user'' sort_param) ! 0)
           = Some (user_email u)"
proof -
  let ?v = "''id:'' @ str_nat (user_id u)"
  from assms(2) have t: "tag_of ''user'' e = Some ?v"
    by (rule tag_of_user)
  then have "tag_values ''user'' [e] = [record_for ''user'' [e] ?v]"
    by (rule tag_values_single)
  with assms(1) have "data (get_group_tagkey_values store gid ''user'' sort_param)
      = [record_for ''user'' [e] ?v]"
    by (simp add: get_group_tagkey_values_def order_by_single)
  moreover from assms(2) have "email_of ''user'' [e] = Some (user_email u)"
    by (simp add: email_of_def)
  ultimately show ?thesis
    using record_for_single [OF t] by (simp add: get_group_tagkey_values_def)
qed

theorem user_tag_event_witness:
  "status_code (get_group_tagkey_values
      [\<lparr>group_id = 1, tags = [],
        user_context = Some \<lparr>user_id = 1, user_email = ''foo@example.com''\<rparr>, timestamp = 5\<rparr>]
      1 ''user'' None) = 200
   \<and> length (data (get_group_tagkey_values
      [\<lparr>group_id = 1, tags = [],
        user_context = Some \<lparr>user_id = 1, user_email = ''foo@example.com''\<rparr>, timestamp = 5\<rparr>]
      1 ''user'' None)) = 1
   \<and> tv_value (data (get_group_tagkey_values
      [\<lparr>group_id = 1, tags = [],
        user_context = Some \<lparr>user_id = 1, user_email = ''foo@example.com''\<rparr>, timestamp = 5\<rparr>]
      1 ''user'' None) ! 0) = ''id:1''
   \<and> tv_email (data (get_group_tagkey_values
      [\<lparr>group_id = 1, tags = [],
        user_context = Some \<lparr>user_id = 1, user_email = ''foo@example.com''\<rparr>, timestamp = 5\<rparr>]
      1 ''user'' None) ! 0) = Some ''foo@example.com''"
proof -
  let ?u = "\<lparr>user_id = 1, user_email = ''foo@example.com''\<rparr>"
  let ?e = "\<lparr>group_id = 1, tags = [], user_context = Some ?u, timestamp = 5\<rparr>"
  have g: "group_events [?e] 1 = [?e]"
    by (simp add: group_events_def)
  have u: "user_context ?e = Some ?u"
    by simp
  have "str_nat 1 = ''1''"
    by code_simp
  then have s: "''id:'' @ str_nat (user_id ?u) = ''id:1''"
    by simp
  show ?thesis
    using user_tag_event [OF g u, of None] unfolding s by simp
qed

text \<open>
  C7. When two stored events of a group share one user identity and a third carries a
  different one, in whatever order they were stored, the request with \<open>sort=count\<close>
  returns the two identities with the two-occurrence identity first; the counts of the
  returned array never increase from one record to the next.
\<close>

theorem count_sort_puts_frequent_identity_first:
  assumes es: "group_events store gid = [a, a', b]
             \<or> group_events store gid = [a, b, a']
             \<or> group_events store gid = [b, a, a']"
    and a: "user_context a = Some ua"
    and a': "user_context a' = Some ua'"
    and same: "user_id ua' = user_id ua"
    and b: "user_context b = Some ub"
    and other: "user_id ub \<noteq> user_id ua"
  shows "map tv_value (data (get_group_tagkey_values store gid ''user'' (Some ''count'')))
           = [''id:'' @ str_nat (user_id ua), ''id:'' @ str_nat (user_id ub)]
       \<and> map tv_count (data (get_group_tagkey_values store gid ''user'' (Some ''count''))) = [2, 1]
       \<and> (\<forall>i j. i \<le> j \<and> j < length (data (get_group_tagkey_values store gid ''user'' (Some ''count'')))
             \<longrightarrow> tv_count (data (get_group_tagkey_values store gid ''user'' (Some ''count'')) ! j)
                 \<le> tv_count (data (get_group_tagkey_values store gid ''user'' (Some ''count'')) ! i))"
proof -
  define v1 where "v1 = ''id:'' @ str_nat (user_id ua)"
  define v2 where "v2 = ''id:'' @ str_nat (user_id ub)"
  have ta: "tag_of ''user'' a = Some v1"
    unfolding v1_def using a by (rule tag_of_user)
  have ta': "tag_of ''user'' a' = Some v1"
    unfolding v1_def same [symmetric] using a' by (rule tag_of_user)
  have tb: "tag_of ''user'' b = Some v2"
    unfolding v2_def using b by (rule tag_of_user)
  have ne: "v2 \<noteq> v1"
    unfolding v1_def v2_def using other user_tag_value_inj by blast
  let ?rs = "tag_values ''user'' (group_events store gid)"
  have vals: "map tv_value (order_by (Some ''count'') ?rs) = [v1, v2]
            \<and> map tv_count (order_by (Some ''count'') ?rs) = [2, 1]"
    using es
  proof (elim disjE)
    assume "group_events store gid = [a, a', b]"
    with ta ta' tb ne show ?thesis
      by (simp add: tag_values_def record_for_def carrying_def Let_def order_by_def)
  next
    assume "group_events store gid = [a, b, a']"
    with ta ta' tb ne show ?thesis
      by (simp add: tag_values_def record_for_def carrying_def Let_def order_by_def)
  next
    assume "group_events store gid = [b, a, a']"
    with ta ta' tb ne show ?thesis
      by (simp add: tag_values_def record_for_def carrying_def Let_def order_by_def)
  qed
  have d: "data (get_group_tagkey_values store gid ''user'' (Some ''count''))
      = order_by (Some ''count'') ?rs"
    by (simp add: get_group_tagkey_values_def)
  from vals show ?thesis
    unfolding d v1_def v2_def by (auto intro: sort_count_descending)
qed

theorem count_sort_puts_frequent_identity_first_witness:
  "map tv_value (data (get_group_tagkey_values
      [\<lparr>group_id = 1, tags = [],
        user_context = Some \<lparr>user_id = 1, user_email = ''foo@example.com''\<rparr>, timestamp = 5\<rparr>,
       \<lparr>group_id = 1, tags = [],
        user_context = Some \<lparr>user_id = 1, user_email = ''foo@example.com''\<rparr>, timestamp = 5\<rparr>,
       \<lparr>group_id = 1, tags = [],
        user_context = Some \<lparr>user_id = 2, user_email = ''bar@example.com''\<rparr>, timestamp = 5\<rparr>]
      1 ''user'' (Some ''count''))) = [''id:1'', ''id:2'']
   \<and> map tv_count (data (get_group_tagkey_values
      [\<lparr>group_id = 1, tags = [],
        user_context = Some \<lparr>user_id = 1, user_email = ''foo@example.com''\<rparr>, timestamp = 5\<rparr>,
       \<lparr>group_id = 1, tags = [],
        user_context = Some \<lparr>user_id = 1, user_email = ''foo@example.com''\<rparr>, timestamp = 5\<rparr>,
       \<lparr>group_id = 1, tags = [],
        user_context = Some \<lparr>user_id = 2, user_email = ''bar@example.com''\<rparr>, timestamp = 5\<rparr>]
      1 ''user'' (Some ''count''))) = [2, 1]"
proof -
  let ?foo = "\<lparr>user_id = 1, user_email = ''foo@example.com''\<rparr>"
  let ?bar = "\<lparr>user_id = 2, user_email = ''bar@example.com''\<rparr>"
  let ?a = "\<lparr>group_id = 1, tags = [], user_context = Some ?foo, timestamp = 5\<rparr>"
  let ?b = "\<lparr>group_id = 1, tags = [], user_context = Some ?bar, timestamp = 5\<rparr>"
  have g: "group_events [?a, ?a, ?b] 1 = [?a, ?a, ?b]
         \<or> group_events [?a, ?a, ?b] 1 = [?a, ?b, ?a]
         \<or> group_events [?a, ?a, ?b] 1 = [?b, ?a, ?a]"
    by (simp add: group_events_def)
  have a: "user_context ?a = Some ?foo" and b: "user_context ?b = Some ?bar"
    by simp_all
  have same: "user_id ?foo = user_id ?foo" and other: "user_id ?bar \<noteq> user_id ?foo"
    by simp_all
  have "str_nat 1 = ''1''" and "str_nat 2 = ''2''"
    by code_simp+
  then have s: "''id:'' @ str_nat (user_id ?foo) = ''id:1''" "''id:'' @ str_nat (user_id ?bar) = ''id:2''"
    by simp_all
  show ?thesis
    using count_sort_puts_frequent_identity_first [OF g a a same b other] unfolding s by simp
qed

end
